theory Spec2Isabelle
  imports Complex_Main "HOL-Library.Log_Nat"
begin

section \<open>The FLIR pan-tilt driver \<open>flirptu/ptu.py\<close>\<close>

text \<open>
  The driver is a Python 3 class \<open>PTU\<close> (\<open>setup.py\<close>: \<open>python_requires=">=3"\<close>) that talks
  to the device through a pyserial port. The model below is a state-passing embedding:
  every method takes the driver state and returns a result together with the new state;
  an exception is the \<open>Inl\<close> of the result, and the state returned with it is the state
  at the moment of the raise.

  Text is ASCII (the wire format of the device): a Python \<open>str\<close> and a Python \<open>bytes\<close>
  are both lists of \<open>char\<close>, told apart by the constructor that wraps them, and
  \<open>encode\<close>/\<open>decode\<close> are the identity on the characters. Theorems whose content depends
  on that carry the hypothesis \<open>ascii_text\<close> on the texts involved.
\<close>

subsection \<open>Python values and built-ins\<close>

datatype error =
    ValueError | TypeError | AttributeError | IndexError | AssertionError
  | ZeroDivisionError

datatype pyobj = PStr string | PBytes string | PInt int

definition ascii_text :: "string \<Rightarrow> bool" where
  "ascii_text s = list_all (\<lambda>c. (of_char c :: nat) < 128) s"

text \<open>\<open>x.upper()\<close> and \<open>x.lower()\<close>; an \<open>int\<close> has neither method.\<close>

definition upper_char :: "char \<Rightarrow> char" where
  "upper_char c =
     (let n = (of_char c :: nat) in if 97 \<le> n \<and> n \<le> 122 then char_of (n - 32) else c)"

definition lower_char :: "char \<Rightarrow> char" where
  "lower_char c =
     (let n = (of_char c :: nat) in if 65 \<le> n \<and> n \<le> 90 then char_of (n + 32) else c)"

definition upper :: "string \<Rightarrow> string" where
  "upper s = map upper_char s"

definition lower :: "string \<Rightarrow> string" where
  "lower s = map lower_char s"

fun py_upper :: "pyobj \<Rightarrow> error + pyobj" where
  "py_upper (PStr s) = Inr (PStr (upper s))"
| "py_upper (PBytes b) = Inr (PBytes (upper b))"
| "py_upper (PInt i) = Inl AttributeError"

text \<open>\<open>x.encode()\<close>: only a \<open>str\<close> has the method (\<open>bytes\<close> lost it in Python 3).\<close>

fun py_encode :: "pyobj \<Rightarrow> error + pyobj" where
  "py_encode (PStr s) = Inr (PBytes s)"
| "py_encode (PBytes b) = Inl AttributeError"
| "py_encode (PInt i) = Inl AttributeError"

definition decode :: "string \<Rightarrow> string" where
  "decode b = b"

definition encode :: "string \<Rightarrow> string" where
  "encode s = s"

text \<open>\<open>x + y\<close>: \<open>str\<close> and \<open>bytes\<close> do not mix.\<close>

fun py_add :: "pyobj \<Rightarrow> pyobj \<Rightarrow> error + pyobj" where
  "py_add (PStr a) (PStr b) = Inr (PStr (a @ b))"
| "py_add (PBytes a) (PBytes b) = Inr (PBytes (a @ b))"
| "py_add (PInt a) (PInt b) = Inr (PInt (a + b))"
| "py_add _ _ = Inl TypeError"

text \<open>\<open>xs[i]\<close> with Python's negative indices, and the slice \<open>xs[i:j]\<close>.\<close>

definition py_index :: "'a list \<Rightarrow> int \<Rightarrow> error + 'a" where
  "py_index xs i =
     (if 0 \<le> i \<and> i < int (length xs) then Inr (xs ! nat i)
      else if i < 0 \<and> - int (length xs) \<le> i then Inr (xs ! nat (int (length xs) + i))
      else Inl IndexError)"

definition slice_bound :: "nat \<Rightarrow> int \<Rightarrow> nat" where
  "slice_bound n k = (if k < 0 then nat (max 0 (int n + k)) else min (nat k) n)"

definition py_slice :: "'a list \<Rightarrow> int \<Rightarrow> int \<Rightarrow> 'a list" where
  "py_slice xs i j =
     (let a = slice_bound (length xs) i; b = slice_bound (length xs) j
      in take (b - a) (drop a xs))"

text \<open>\<open>str(n)\<close> for an integer: decimal digits, a minus sign when negative.\<close>

definition digit_char :: "nat \<Rightarrow> char" where
  "digit_char d = char_of (48 + d)"

fun nat_digits :: "nat \<Rightarrow> string" where
  "nat_digits n = (if n < 10 then [digit_char n] else nat_digits (n div 10) @ [digit_char (n mod 10)])"

declare nat_digits.simps [simp del]

definition str_int :: "int \<Rightarrow> string" where
  "str_int i = (if i < 0 then CHR ''-'' # nat_digits (nat (- i)) else nat_digits (nat i))"

text \<open>
  A Python \<open>float\<close> is an IEEE-754 binary64 number; a finite one is a rational, and the
  model keeps that rational. \<open>fl x\<close> is \<open>x\<close> rounded to the nearest binary64 value
  (53 significant bits, ties to the even significand), which is what each float
  operation returns for the exact result \<open>x\<close>. The exponent is not bounded here:
  overflow to infinity, subnormal numbers and NaN are outside the model.
  \<open>round_half_even\<close> is \<open>round(x)\<close> for a float \<open>x\<close>: the nearest integer, a tie going
  to the even one. \<open>float_div\<close> is \<open>a / b\<close>.
\<close>

definition round_half_even :: "rat \<Rightarrow> int" where
  "round_half_even x =
     (let f = \<lfloor>x\<rfloor>; d = x - of_int f
      in if d < 1 / 2 then f else if 1 / 2 < d then f + 1 else if even f then f else f + 1)"

definition pow2 :: "int \<Rightarrow> rat" where
  "pow2 k = (if 0 \<le> k then 2 ^ nat k else 1 / 2 ^ nat (- k))"

definition ilog2 :: "rat \<Rightarrow> int" where
  "ilog2 x =
     (let (p, q) = quotient_of x;
          k = int (floorlog 2 (nat p)) - int (floorlog 2 (nat q))
      in if pow2 k \<le> x then k else k - 1)"

definition fl :: "rat \<Rightarrow> rat" where
  "fl x =
     (if x = 0 then 0
      else (let u = pow2 (ilog2 \<bar>x\<bar> - 52) in of_int (round_half_even (x / u)) * u))"



text \<open>\<open>s.split()\<close>: maximal runs of non-whitespace characters.\<close>

definition isspace :: "char \<Rightarrow> bool" where
  "isspace c = (let n = (of_char c :: nat) in (9 \<le> n \<and> n \<le> 13) \<or> (28 \<le> n \<and> n \<le> 32))"

fun split_from :: "string \<Rightarrow> string \<Rightarrow> string list" where
  "split_from cur [] = (if cur = [] then [] else [cur])"
| "split_from cur (c # cs) =
     (if isspace c then (if cur = [] then split_from [] cs else cur # split_from [] cs)
      else split_from (cur @ [c]) cs)"

definition py_split :: "string \<Rightarrow> string list" where
  "py_split s = split_from [] s"

subsection \<open>The serial port\<close>

text \<open>
  The port is pyserial's \<open>Serial\<close>, an external collaborator. Its model: \<open>rx\<close> holds the
  bytes that have arrived and were not read yet (\<open>in_waiting\<close> is their number),
  \<open>pending\<close> is what the device will put on the line in answer to each of the next
  writes, \<open>tx\<close> is the log of the frames written. A read that meets no terminator
  before the bytes run out is a timeout and returns what it has.
\<close>

record port =
  rx :: string
  pending :: "string list"
  tx :: "string list"

definition in_waiting :: "port \<Rightarrow> nat" where
  "in_waiting p = length (rx p)"

definition port_read :: "nat \<Rightarrow> port \<Rightarrow> string \<times> port" where
  "port_read n p = (take n (rx p), p\<lparr>rx := drop n (rx p)\<rparr>)"

definition port_write :: "string \<Rightarrow> port \<Rightarrow> port" where
  "port_write b p =
     (case pending p of
        [] \<Rightarrow> p\<lparr>tx := tx p @ [b]\<rparr>
      | r # rs \<Rightarrow> p\<lparr>rx := rx p @ r, pending := rs, tx := tx p @ [b]\<rparr>)"

fun read_until_from :: "string \<Rightarrow> string \<Rightarrow> string \<Rightarrow> string \<times> string" where
  "read_until_from expected line [] = (line, [])"
| "read_until_from expected line (c # cs) =
     (let line' = line @ [c]
      in if drop (length line' - length expected) line' = expected then (line', cs)
         else read_until_from expected line' cs)"

definition port_read_until :: "string \<Rightarrow> port \<Rightarrow> string \<times> port" where
  "port_read_until expected p =
     (let (line, rest) = read_until_from expected [] (rx p) in (line, p\<lparr>rx := rest\<rparr>))"

subsection \<open>The driver state\<close>

record ptu =
  serial :: port
  echo :: bool
  panResolution :: rat
  tiltResolution :: rat
  warnings :: "pyobj list"

type_synonym 'a result = "(error + 'a) \<times> ptu"

text \<open>The line terminator \<open>self._TERM\<close>: carriage return, line feed.\<close>

definition ptu_TERM :: string where
  "ptu_TERM = [CHR 0x0D, CHR 0x0A]"

text \<open>
  \<open>warnings.warn(message)\<close>: the advisory is recorded in the order issued, nothing is
  raised. \<open>warnings\<close> is the advisory channel of the session.
\<close>

definition warn :: "pyobj \<Rightarrow> ptu \<Rightarrow> ptu" where
  "warn msg st = st\<lparr>warnings := warnings st @ [msg]\<rparr>"

subsection \<open>Basic serial functions\<close>

text \<open>
  \<open>__handle_async_input(contents)\<close> builds its message as
  \<open>'Device asynchronously displayed: ' + contents.encode()\<close> and passes it to \<open>warn\<close>.
\<close>

definition handle_async_input :: "pyobj \<Rightarrow> ptu \<Rightarrow> unit result" where
  "handle_async_input contents st =
     (case py_encode contents of
        Inl e \<Rightarrow> (Inl e, st)
      | Inr encoded \<Rightarrow>
          (case py_add (PStr ''Device asynchronously displayed: '') encoded of
             Inl e \<Rightarrow> (Inl e, st)
           | Inr message \<Rightarrow> (Inr (), warn message st)))"

text \<open>
  \<open>__send_command(command)\<close>: a \<open>str\<close> is encoded, anything but \<open>bytes\<close> fails the
  assertion; bytes waiting on the port are read and handed to
  \<open>__handle_async_input\<close>; then the command is written.
\<close>

definition send_command :: "pyobj \<Rightarrow> ptu \<Rightarrow> unit result" where
  "send_command command st =
     (case (case command of PStr s \<Rightarrow> Inr (encode s) | PBytes b \<Rightarrow> Inr b
                          | PInt i \<Rightarrow> Inl AssertionError) of
        Inl e \<Rightarrow> (Inl e, st)
      | Inr frame \<Rightarrow>
          (if in_waiting (serial st) > 0 then
             (let (contents, p) = port_read (in_waiting (serial st)) (serial st);
                  st1 = st\<lparr>serial := p\<rparr>
              in case handle_async_input (PBytes contents) st1 of
                   (Inl e, st2) \<Rightarrow> (Inl e, st2)
                 | (Inr u, st2) \<Rightarrow> (Inr (), st2\<lparr>serial := port_write frame (serial st2)\<rparr>))
           else (Inr (), st\<lparr>serial := port_write frame (serial st)\<rparr>)))"

text \<open>\<open>__get_response()\<close>: one line up to the terminator, decoded.\<close>

definition get_response :: "ptu \<Rightarrow> string \<times> ptu" where
  "get_response st =
     (let (line, p) = port_read_until ptu_TERM (serial st) in (decode line, st\<lparr>serial := p\<rparr>))"

subsection \<open>\<open>send\<close>\<close>

text \<open>
  The terminator check of \<open>send\<close>: a \<open>str\<close> must end in a space and is encoded, a
  \<open>bytes\<close> is decoded for the same test, anything else is a \<open>TypeError\<close>. The result is
  the frame as bytes.
\<close>

definition check_terminator :: "pyobj \<Rightarrow> error + string" where
  "check_terminator command =
     (case command of
        PStr s \<Rightarrow>
          (case py_index s (- 1) of
             Inl e \<Rightarrow> Inl e
           | Inr c \<Rightarrow> if c \<noteq> CHR '' '' then Inl ValueError else Inr (encode s))
      | PBytes b \<Rightarrow>
          (case py_index (decode b) (- 1) of
             Inl e \<Rightarrow> Inl e
           | Inr c \<Rightarrow> if c \<noteq> CHR '' '' then Inl ValueError else Inr b)
      | PInt i \<Rightarrow> Inl TypeError)"

text \<open>
  The three membership tests \<open>command[:-1] in [...]\<close>. At that point \<open>command\<close> is
  \<open>bytes\<close>, and the lists hold \<open>str\<close> literals.
\<close>

definition unsupported_advisory :: "string \<Rightarrow> ptu \<Rightarrow> ptu" where
  "unsupported_advisory frame st =
     (let mnemonic = PBytes (py_slice frame 0 (- 1))
      in if mnemonic \<in> set (map PStr [''LE'', ''LD'', ''LU'', ''PNU'', ''PXU'', ''TNU'', ''TXU''])
         then warn (PStr ''Setting limits is not currently supported'') st
         else if mnemonic \<in> set (map PStr [''I'', ''S''])
         then warn (PStr ''Changing execution mode is not currently supported'') st
         else if mnemonic \<in> set (map PStr [''ME'', ''MD''])
         then warn (PStr ''Monitoring is not currently supported'') st
         else st)"

definition send :: "pyobj \<Rightarrow> bool \<Rightarrow> ptu \<Rightarrow> string result" where
  "send command strip_echo st =
     (case py_upper command of
        Inl e \<Rightarrow> (Inl e, st)
      | Inr command1 \<Rightarrow>
          (case check_terminator command1 of
             Inl e \<Rightarrow> (Inl e, st)
           | Inr frame \<Rightarrow>
               (case send_command (PBytes frame) (unsupported_advisory frame st) of
                  (Inl e, st1) \<Rightarrow> (Inl e, st1)
                | (Inr u, st1) \<Rightarrow>
                    (let (response, st2) = get_response st1;
                         st3 = (if frame = ''EE '' then st2\<lparr>echo := True\<rparr>
                                else if frame = ''ED '' then st2\<lparr>echo := False\<rparr>
                                else st2)
                     in if strip_echo \<and> echo st3
                        then (Inr (py_slice response (int (length frame))
                                     (int (length response) - int (length ptu_TERM))), st3)
                        else (Inr (py_slice response 0
                                     (int (length response) - int (length ptu_TERM))), st3)))))"

subsection \<open>The echo property and the control mode\<close>


text \<open>\<open>_determine_control_mode\<close>: \<open>'pos'\<close> or \<open>'vel'\<close> from the reply to \<open>C\<close>.\<close>

definition determine_control_mode :: "ptu \<Rightarrow> string result" where
  "determine_control_mode st =
     (case send (PBytes ''C '') True st of
        (Inl e, st1) \<Rightarrow> (Inl e, st1)
      | (Inr response, st1) \<Rightarrow>
          (case py_index (py_split response) 5 of
             Inl e \<Rightarrow> (Inl e, st1)
           | Inr token \<Rightarrow>
               (Inr (if lower token = ''independent'' then ''pos'' else ''vel''), st1)))"

subsection \<open>Motion and speed commands\<close>

text \<open>
  The nine setters share one body: send the frame, wait with \<open>A\<close> when blocking, then
  look at \<open>resp[0]\<close>. \<open>acknowledged\<close> is that body, with the frame and the text of the
  warning as parameters.
\<close>

definition acknowledged :: "string \<Rightarrow> string \<Rightarrow> bool \<Rightarrow> ptu \<Rightarrow> bool result" where
  "acknowledged frame label blocking st =
     (case send (PBytes frame) True st of
        (Inl e, st1) \<Rightarrow> (Inl e, st1)
      | (Inr resp, st1) \<Rightarrow>
          (case (if blocking then send (PBytes ''A '') True st1 else (Inr [], st1)) of
             (Inl e, st2) \<Rightarrow> (Inl e, st2)
           | (Inr waited, st2) \<Rightarrow>
               (case py_index resp 0 of
                  Inl e \<Rightarrow> (Inl e, st2)
                | Inr c \<Rightarrow>
                    if c \<noteq> CHR ''*'' then (Inr False, warn (PStr (label @ resp)) st2)
                    else (Inr True, st2))))"

definition setPanPosition :: "int \<Rightarrow> bool \<Rightarrow> ptu \<Rightarrow> bool result" where
  "setPanPosition pos blocking =
     acknowledged (''PP'' @ str_int pos @ '' '') ''Pan position response: '' blocking"

definition setTiltPosition :: "int \<Rightarrow> bool \<Rightarrow> ptu \<Rightarrow> bool result" where
  "setTiltPosition pos blocking =
     acknowledged (''TP'' @ str_int pos @ '' '') ''Tilt position response: '' blocking"

definition setPanSpeed :: "int \<Rightarrow> bool \<Rightarrow> ptu \<Rightarrow> bool result" where
  "setPanSpeed speed blocking =
     acknowledged (''PS'' @ str_int speed @ '' '') ''Pan speed response: '' blocking"

definition setTiltSpeed :: "int \<Rightarrow> bool \<Rightarrow> ptu \<Rightarrow> bool result" where
  "setTiltSpeed speed blocking =
     acknowledged (''TS'' @ str_int speed @ '' '') ''Tilt speed response: '' blocking"

definition setPositionAndSpeed :: "int \<Rightarrow> int \<Rightarrow> int \<Rightarrow> int \<Rightarrow> bool \<Rightarrow> ptu \<Rightarrow> bool result" where
  "setPositionAndSpeed panPos tiltPos panSpeed tiltSpeed blocking =
     acknowledged (''B'' @ str_int panPos @ '','' @ str_int tiltPos @ '','' @ str_int panSpeed
                     @ '','' @ str_int tiltSpeed @ '' '')
       ''Set position and speed response: '' blocking"

definition setPanPositionOffset :: "int \<Rightarrow> bool \<Rightarrow> ptu \<Rightarrow> bool result" where
  "setPanPositionOffset offset blocking =
     acknowledged (''PO'' @ str_int offset @ '' '') ''Pan position offset response: '' blocking"

definition setTiltPositionOffset :: "int \<Rightarrow> bool \<Rightarrow> ptu \<Rightarrow> bool result" where
  "setTiltPositionOffset offset blocking =
     acknowledged (''TO'' @ str_int offset @ '' '') ''Tilt position offset response: '' blocking"

definition setPanSpeedOffset :: "int \<Rightarrow> bool \<Rightarrow> ptu \<Rightarrow> bool result" where
  "setPanSpeedOffset offset blocking =
     acknowledged (''PD'' @ str_int offset @ '' '') ''Pan speed offset response: '' blocking"

definition setTiltSpeedOffset :: "int \<Rightarrow> bool \<Rightarrow> ptu \<Rightarrow> bool result" where
  "setTiltSpeedOffset offset blocking =
     acknowledged (''TD'' @ str_int offset @ '' '') ''Tilt speed offset response: '' blocking"

text \<open>\<open>halt\<close> sends the \<open>str\<close> \<open>'H '\<close> and returns \<open>resp[0] == '*'\<close>.\<close>

definition halt :: "ptu \<Rightarrow> bool result" where
  "halt st =
     (case send (PStr ''H '') True st of
        (Inl e, st1) \<Rightarrow> (Inl e, st1)
      | (Inr resp, st1) \<Rightarrow>
          (case py_index resp 0 of
             Inl e \<Rightarrow> (Inl e, st1)
           | Inr c \<Rightarrow> (Inr (c = CHR ''*''), st1)))"

text \<open>
  The commands as data, so that a statement can range over all of them: \<open>call m\<close> is
  the method \<open>m\<close> names, \<open>frame_of m\<close> the frame it sends and \<open>label_of m\<close> the text its
  warning starts with.
\<close>

datatype mutation =
    SetPanPosition int | SetTiltPosition int | SetPanSpeed int | SetTiltSpeed int
  | SetPositionAndSpeed int int int int
  | SetPanPositionOffset int | SetTiltPositionOffset int
  | SetPanSpeedOffset int | SetTiltSpeedOffset int

fun call :: "mutation \<Rightarrow> bool \<Rightarrow> ptu \<Rightarrow> bool result" where
  "call (SetPanPosition pos) = setPanPosition pos"
| "call (SetTiltPosition pos) = setTiltPosition pos"
| "call (SetPanSpeed speed) = setPanSpeed speed"
| "call (SetTiltSpeed speed) = setTiltSpeed speed"
| "call (SetPositionAndSpeed a b c d) = setPositionAndSpeed a b c d"
| "call (SetPanPositionOffset offset) = setPanPositionOffset offset"
| "call (SetTiltPositionOffset offset) = setTiltPositionOffset offset"
| "call (SetPanSpeedOffset offset) = setPanSpeedOffset offset"
| "call (SetTiltSpeedOffset offset) = setTiltSpeedOffset offset"

fun frame_of :: "mutation \<Rightarrow> string" where
  "frame_of (SetPanPosition pos) = ''PP'' @ str_int pos @ '' ''"
| "frame_of (SetTiltPosition pos) = ''TP'' @ str_int pos @ '' ''"
| "frame_of (SetPanSpeed speed) = ''PS'' @ str_int speed @ '' ''"
| "frame_of (SetTiltSpeed speed) = ''TS'' @ str_int speed @ '' ''"
| "frame_of (SetPositionAndSpeed a b c d) =
     ''B'' @ str_int a @ '','' @ str_int b @ '','' @ str_int c @ '','' @ str_int d @ '' ''"
| "frame_of (SetPanPositionOffset offset) = ''PO'' @ str_int offset @ '' ''"
| "frame_of (SetTiltPositionOffset offset) = ''TO'' @ str_int offset @ '' ''"
| "frame_of (SetPanSpeedOffset offset) = ''PD'' @ str_int offset @ '' ''"
| "frame_of (SetTiltSpeedOffset offset) = ''TD'' @ str_int offset @ '' ''"

fun label_of :: "mutation \<Rightarrow> string" where
  "label_of (SetPanPosition pos) = ''Pan position response: ''"
| "label_of (SetTiltPosition pos) = ''Tilt position response: ''"
| "label_of (SetPanSpeed speed) = ''Pan speed response: ''"
| "label_of (SetTiltSpeed speed) = ''Tilt speed response: ''"
| "label_of (SetPositionAndSpeed a b c d) = ''Set position and speed response: ''"
| "label_of (SetPanPositionOffset offset) = ''Pan position offset response: ''"
| "label_of (SetTiltPositionOffset offset) = ''Tilt position offset response: ''"
| "label_of (SetPanSpeedOffset offset) = ''Pan speed offset response: ''"
| "label_of (SetTiltSpeedOffset offset) = ''Tilt speed offset response: ''"

subsection \<open>Angles to positions\<close>





subsection \<open>Sessions for the examples\<close>

text \<open>
  \<open>after_write frame st\<close> is the session once \<open>frame\<close> has gone out on the port:
  the device's next answer, if any, is on the line. \<open>session e buffered replies\<close> is a
  session with echo state \<open>e\<close>, \<open>buffered\<close> unread bytes on the port and a device that
  will answer the next writes with \<open>replies\<close>.
\<close>

definition after_write :: "string \<Rightarrow> ptu \<Rightarrow> ptu" where
  "after_write frame st = st\<lparr>serial := port_write frame (serial st)\<rparr>"

definition session :: "bool \<Rightarrow> string \<Rightarrow> string list \<Rightarrow> ptu" where
  "session e buffered replies =
     \<lparr>serial = \<lparr>rx = buffered, pending = replies, tx = []\<rparr>, echo = e,
      panResolution = fl (23142857 / 1000000), tiltResolution = fl (11571429 / 1000000),
      warnings = []\<rparr>"

section \<open>Properties\<close>

subsection \<open>Built-ins\<close>

lemma upper_char_space: "(upper_char c = CHR '' '') = (c = CHR '' '')"
proof (cases "97 \<le> (of_char c :: nat) \<and> (of_char c :: nat) \<le> 122")
  case True
  then have "(of_char c - 32 :: nat) < 256" by linarith
  then have "(of_char c - 32 :: nat) mod 256 = of_char c - 32" by (rule mod_less)
  with True have "(of_char (upper_char c) :: nat) = of_char c - 32"
    by (simp add: upper_char_def Let_def)
  moreover have sp: "(of_char (CHR '' '') :: nat) = 32" by simp
  ultimately have "(of_char (upper_char c) :: nat) \<noteq> of_char (CHR '' '')"
    using True by linarith
  moreover from True sp have "(of_char c :: nat) \<noteq> of_char (CHR '' '')" by linarith
  ultimately show ?thesis by metis
next
  case False
  then show ?thesis by (auto simp: upper_char_def Let_def)
qed

lemma last_upper: "s \<noteq> [] \<Longrightarrow> (last (upper s) = CHR '' '') = (last s = CHR '' '')"
  by (simp add: upper_def last_map upper_char_space)

lemma upper_Nil: "(upper s = []) = (s = [])"
  by (simp add: upper_def)

lemma length_upper: "length (upper s) = length s"
  by (simp add: upper_def)

lemma py_index_last: "s \<noteq> [] \<Longrightarrow> py_index s (- 1) = Inr (last s)"
proof -
  assume "s \<noteq> []"
  then have "1 \<le> length s" by (cases s) simp_all
  then have "nat (int (length s) + - 1) = length s - 1" "- int (length s) \<le> - 1"
    by simp_all
  then show ?thesis
    using \<open>s \<noteq> []\<close> by (simp add: py_index_def last_conv_nth)
qed

lemma py_index_last_Nil: "py_index [] (- 1) = Inl IndexError"
  by (simp add: py_index_def)

lemma py_index_0: "py_index s 0 = (case s of [] \<Rightarrow> Inl IndexError | c # cs \<Rightarrow> Inr c)"
  by (simp add: py_index_def split: list.splits)

lemma unsupported_advisory_id: "unsupported_advisory frame st = st"
  by (simp add: unsupported_advisory_def)

lemma check_terminator_text:
  assumes "command = PStr s \<or> command = PBytes s"
  shows "check_terminator command =
           (if s = [] then Inl IndexError
            else if last s \<noteq> CHR '' '' then Inl ValueError else Inr s)"
  using assms
  by (auto simp: check_terminator_def py_index_last py_index_last_Nil encode_def decode_def)

lemma send_command_busy:
  assumes "rx (serial st) \<noteq> []"
  shows "send_command (PBytes frame) st =
           (Inl AttributeError, st\<lparr>serial := (serial st)\<lparr>rx := []\<rparr>\<rparr>)"
  using assms
  by (simp add: send_command_def in_waiting_def port_read_def handle_async_input_def)

lemma send_command_idle:
  assumes "rx (serial st) = []"
  shows "send_command (PBytes frame) st = (Inr (), st\<lparr>serial := port_write frame (serial st)\<rparr>)"
  using assms by (simp add: send_command_def in_waiting_def)


lemma send_text:
  assumes "command = PStr s \<or> command = PBytes s"
  shows "send command strip_echo st =
    (if s = [] then (Inl IndexError, st)
     else if last s \<noteq> CHR '' '' then (Inl ValueError, st)
     else if rx (serial st) \<noteq> [] then (Inl AttributeError, st\<lparr>serial := (serial st)\<lparr>rx := []\<rparr>\<rparr>)
     else (let (response, st2) = get_response (st\<lparr>serial := port_write (upper s) (serial st)\<rparr>);
               on = (if upper s = ''EE '' then True else if upper s = ''ED '' then False else echo st2)
           in (Inr (py_slice response (if strip_echo \<and> on then int (length (upper s)) else 0)
                       (int (length response) - 2)), st2\<lparr>echo := on\<rparr>)))"
proof -
  have ct: "check_terminator (case command of PStr x \<Rightarrow> PStr (upper x) | PBytes x \<Rightarrow> PBytes (upper x) | PInt i \<Rightarrow> PInt i) =
      (if s = [] then Inl IndexError else if last s \<noteq> CHR '' '' then Inl ValueError else Inr (upper s))"
    using assms check_terminator_text[of "PStr (upper s)" "upper s"] check_terminator_text[of "PBytes (upper s)" "upper s"]
    by (auto simp: upper_Nil last_upper)
  show ?thesis
    using assms ct
    by (auto simp: send_def unsupported_advisory_id send_command_busy send_command_idle
        ptu_TERM_def Let_def split: prod.splits)
qed


lemma py_slice_payload:
  "py_slice r (int n) (int (length r) - 2) = drop n (take (length r - 2) r)"
proof -
  have b: "slice_bound (length r) (int (length r) - 2) = length r - 2"
    by (auto simp: slice_bound_def)
  have a: "slice_bound (length r) (int n) = min n (length r)"
    by (simp add: slice_bound_def)
  show ?thesis
    by (cases "n \<le> length r") (simp_all add: py_slice_def a b drop_take min_def)
qed

lemma py_slice_payload0:
  "py_slice r 0 (int (length r) - 2) = take (length r - 2) r"
  using py_slice_payload[of r 0] by simp

lemma get_response_keeps:
  assumes "get_response st = (response, st2)"
  shows "echo st2 = echo st" "warnings st2 = warnings st" "tx (serial st2) = tx (serial st)"
    "pending (serial st2) = pending (serial st)"
  using assms by (auto simp: get_response_def port_read_until_def split: prod.splits)


lemma send_idle:
  assumes "command = PStr s \<or> command = PBytes s" "s \<noteq> []" "last s = CHR '' ''"
    "rx (serial st) = []" "get_response (after_write (upper s) st) = (response, st2)"
  shows "send command strip_echo st =
     (let on = (if upper s = ''EE '' then True else if upper s = ''ED '' then False else echo st)
      in (Inr (drop (if strip_echo \<and> on then length s else 0) (take (length response - 2) response)),
          st2\<lparr>echo := on\<rparr>))"
proof -
  have e: "echo st2 = echo st"
    using get_response_keeps(1)[OF assms(5)] by (simp add: after_write_def)
  have "send command strip_echo st =
     (let on = (if upper s = ''EE '' then True else if upper s = ''ED '' then False else echo st)
      in (Inr (py_slice response (if strip_echo \<and> on then int (length (upper s)) else 0)
                 (int (length response) - 2)), st2\<lparr>echo := on\<rparr>))"
    using assms(2-5) e
    by (simp add: send_text[OF assms(1)] after_write_def Let_def)
  also have "\<dots> =
     (let on = (if upper s = ''EE '' then True else if upper s = ''ED '' then False else echo st)
      in (Inr (drop (if strip_echo \<and> on then length s else 0) (take (length response - 2) response)),
          st2\<lparr>echo := on\<rparr>))"
  proof -
    have "upper s = ''EE '' \<Longrightarrow> length s = 3" "upper s = ''ED '' \<Longrightarrow> length s = 3"
      using length_upper[of s] by simp_all
    moreover have "py_slice response 3 (int (length response) - 2)
        = drop 3 (take (length response - 2) response)"
      using py_slice_payload[of response 3] by simp
    ultimately show ?thesis
      by (auto simp: Let_def length_upper py_slice_payload py_slice_payload0)
  qed
  finally show ?thesis .
qed

subsection \<open>The terminator check\<close>



subsection \<open>What \<open>send\<close> returns\<close>


lemma session_simps:
  "serial (session e b r) = \<lparr>rx = b, pending = r, tx = []\<rparr>"
  "echo (session e b r) = e" "warnings (session e b r) = []"
  by (simp_all add: session_def)

lemma upper_examples:
  "upper ''pp10 '' = ''PP10 ''" "upper ''EE '' = ''EE ''" "upper ''ED '' = ''ED ''"
  "upper ''PP10 '' = ''PP10 ''" "upper ''H '' = ''H ''" "upper ''A '' = ''A ''"
  "upper ''C '' = ''C ''" "upper ''LE '' = ''LE ''" "upper ''I '' = ''I ''"
  "upper ''ME '' = ''ME ''" "upper ''PP '' = ''PP ''"
  by code_simp+



subsection \<open>The echo toggles\<close>



lemmas port_eval = get_response_def after_write_def session_def port_write_def
  port_read_until_def ptu_TERM_def decode_def

lemma respond_silent:
  "get_response (after_write frame (session e [] [])) =
     ([], (session e [] [])\<lparr>serial := \<lparr>rx = [], pending = [], tx = [frame]\<rparr>\<rparr>)"
  by (simp add: get_response_def after_write_def session_def port_write_def
      port_read_until_def decode_def)










lemma send_never_warns: "warnings (snd (send command strip_echo st)) = warnings st"
proof (cases command)
  case (PInt i)
  then show ?thesis by (simp add: send_def)
next
  case (PStr s)
  obtain response st2 where
    g: "get_response (st\<lparr>serial := port_write (upper s) (serial st)\<rparr>) = (response, st2)"
    by (cases "get_response (st\<lparr>serial := port_write (upper s) (serial st)\<rparr>)")
  from get_response_keeps(2)[OF g] show ?thesis
    using PStr g by (simp add: send_text[of "PStr s" s] Let_def)
next
  case (PBytes s)
  obtain response st2 where
    g: "get_response (st\<lparr>serial := port_write (upper s) (serial st)\<rparr>) = (response, st2)"
    by (cases "get_response (st\<lparr>serial := port_write (upper s) (serial st)\<rparr>)")
  from get_response_keeps(2)[OF g] show ?thesis
    using PBytes g by (simp add: send_text[of "PBytes s" s] Let_def)
qed

subsection \<open>Advisories\<close>

text \<open>
  Claim C2 on the code. \<open>LE\<close>, \<open>I\<close> and \<open>ME\<close> (one mnemonic of each of the three
  lists) are written to the port and answered, and the session comes back with no
  advisory recorded: \<open>send_never_warns\<close> shows that \<open>send\<close> records none for any command,
  because the frame is \<open>bytes\<close> when it is looked up in lists of \<open>str\<close>.
\<close>

theorem unsupported_mnemonics_not_reported:
  "send (PBytes ''LE '') True (session False [] [''*'' @ ptu_TERM]) =
     (Inr ''*'', (session False [] [])\<lparr>serial := \<lparr>rx = [], pending = [], tx = [''LE '']\<rparr>\<rparr>) \<and>
   send (PStr ''I '') True (session False [] [''*'' @ ptu_TERM]) =
     (Inr ''*'', (session False [] [])\<lparr>serial := \<lparr>rx = [], pending = [], tx = [''I '']\<rparr>\<rparr>) \<and>
   send (PBytes ''ME '') True (session False [] [''*'' @ ptu_TERM]) =
     (Inr ''*'', (session False [] [])\<lparr>serial := \<lparr>rx = [], pending = [], tx = [''ME '']\<rparr>\<rparr>) \<and>
   warnings ((session False [] [])\<lparr>serial := \<lparr>rx = [], pending = [], tx = [''LE '']\<rparr>\<rparr>) = []"
proof -
  have r: "rx (serial (session False [] [''*'' @ ptu_TERM])) = []" by (simp add: session_simps)
  have g: "\<And>frame. get_response (after_write frame (session False [] [''*'' @ ptu_TERM]))
      = (''*'' @ ptu_TERM, (session False [] [])\<lparr>serial := \<lparr>rx = [], pending = [], tx = [frame]\<rparr>\<rparr>)"
    by (simp add: port_eval)
  have 1: "send (PBytes ''LE '') True (session False [] [''*'' @ ptu_TERM]) =
     (Inr ''*'', (session False [] [])\<lparr>serial := \<lparr>rx = [], pending = [], tx = [''LE '']\<rparr>\<rparr>)"
    using send_idle[of "PBytes ''LE ''" "''LE ''", OF _ _ _ r g, of True]
    by (simp add: upper_examples ptu_TERM_def session_def)
  have 2: "send (PStr ''I '') True (session False [] [''*'' @ ptu_TERM]) =
     (Inr ''*'', (session False [] [])\<lparr>serial := \<lparr>rx = [], pending = [], tx = [''I '']\<rparr>\<rparr>)"
    using send_idle[of "PStr ''I ''" "''I ''", OF _ _ _ r g, of True]
    by (simp add: upper_examples ptu_TERM_def session_def)
  have 3: "send (PBytes ''ME '') True (session False [] [''*'' @ ptu_TERM]) =
     (Inr ''*'', (session False [] [])\<lparr>serial := \<lparr>rx = [], pending = [], tx = [''ME '']\<rparr>\<rparr>)"
    using send_idle[of "PBytes ''ME ''" "''ME ''", OF _ _ _ r g, of True]
    by (simp add: upper_examples ptu_TERM_def session_def)
  show ?thesis using 1 2 3 by (simp add: session_simps)
qed

text \<open>
  Claim C3 on the code. With five bytes buffered on the port, \<open>send\<close> reads them and
  then raises \<open>AttributeError\<close> (\<open>contents.encode()\<close> on \<open>bytes\<close>): the buffer is empty
  afterwards, no advisory was recorded and the command was not written.
\<close>

theorem buffered_input_raises:
  "send (PBytes ''PP '') True (session True ''hello'' [''PP * Current Pan position is 0'' @ ptu_TERM]) =
     (Inl AttributeError, session True [] [''PP * Current Pan position is 0'' @ ptu_TERM]) \<and>
   warnings (session True [] [''PP * Current Pan position is 0'' @ ptu_TERM]) = [] \<and>
   tx (serial (session True [] [''PP * Current Pan position is 0'' @ ptu_TERM])) = []"
  using send_text[of "PBytes ''PP ''" "''PP ''" True
      "session True ''hello'' [''PP * Current Pan position is 0'' @ ptu_TERM]"]
  by (simp add: session_def)

lemma call_acknowledged: "call m blocking st = acknowledged (frame_of m) (label_of m) blocking st"
  by (cases m)
    (simp_all add: setPanPosition_def setTiltPosition_def setPanSpeed_def setTiltSpeed_def
      setPositionAndSpeed_def setPanPositionOffset_def setTiltPositionOffset_def
      setPanSpeedOffset_def setTiltSpeedOffset_def)

subsection \<open>Motion and speed commands\<close>


lemma frame_of_shape: "frame_of m \<noteq> []" "last (frame_of m) = CHR '' ''"
  by (cases m; simp)+

lemma send_timeout:
  assumes "command = PStr s \<or> command = PBytes s" and "s \<noteq> []" and "last s = CHR '' ''"
    and "rx (serial st) = []" and "pending (serial st) = []"
  shows "\<exists>st1. send command True st = (Inr [], st1) \<and> rx (serial st1) = [] \<and>
           pending (serial st1) = []"
proof -
  have g: "get_response (after_write (upper s) st) =
      ([], st\<lparr>serial := (serial st)\<lparr>tx := tx (serial st) @ [upper s]\<rparr>\<rparr>)"
    using assms(4,5)
    by (simp add: get_response_def after_write_def port_write_def port_read_until_def decode_def)
  show ?thesis
    using assms(4,5) by (simp add: send_idle[OF assms(1,2,3,4) g] Let_def)
qed

text \<open>
  Claim C10. For each of the nine setters and for \<open>halt\<close>: when \<open>send\<close> returned the
  empty payload, the call raises \<open>IndexError\<close> instead of returning \<open>False\<close>. That is what
  happens on a port with nothing buffered and a device that does not answer, blocking
  or not.
\<close>

theorem empty_payload_raises_index_error:
  "(send (PBytes (frame_of m)) True st = (Inr [], st1) \<and>
    (blocking \<longrightarrow> send (PBytes ''A '') True st1 = (Inr waited, st2)) \<and>
    (\<not> blocking \<longrightarrow> st2 = st1) \<longrightarrow>
      call m blocking st = (Inl IndexError, st2)) \<and>
   (send (PStr ''H '') True st = (Inr [], st1) \<longrightarrow> halt st = (Inl IndexError, st1)) \<and>
   (rx (serial st) = [] \<and> pending (serial st) = [] \<longrightarrow>
      fst (call m blocking st) = Inl IndexError \<and> fst (halt st) = Inl IndexError)"
proof (intro conjI impI)
  assume "send (PBytes (frame_of m)) True st = (Inr [], st1) \<and>
    (blocking \<longrightarrow> send (PBytes ''A '') True st1 = (Inr waited, st2)) \<and>
    (\<not> blocking \<longrightarrow> st2 = st1)"
  then show "call m blocking st = (Inl IndexError, st2)"
    by (cases blocking) (simp_all add: call_acknowledged acknowledged_def py_index_0)
next
  assume "send (PStr ''H '') True st = (Inr [], st1)"
  then show "halt st = (Inl IndexError, st1)"
    by (simp add: halt_def py_index_0)
next
  assume q: "rx (serial st) = [] \<and> pending (serial st) = []"
  obtain sa where a: "send (PBytes (frame_of m)) True st = (Inr [], sa)"
    "rx (serial sa) = []" "pending (serial sa) = []"
    using send_timeout[of "PBytes (frame_of m)" "frame_of m" st] frame_of_shape[of m] q by auto
  obtain sb where b: "send (PBytes ''A '') True sa = (Inr [], sb)"
    using send_timeout[of "PBytes ''A ''" "''A ''" sa] a(2,3) by auto
  show "fst (call m blocking st) = Inl IndexError"
    using a(1) b by (cases blocking) (simp_all add: call_acknowledged acknowledged_def py_index_0)
  obtain sh where h: "send (PStr ''H '') True st = (Inr [], sh)"
    using send_timeout[of "PStr ''H ''" "''H ''" st] q by auto
  show "fst (halt st) = Inl IndexError"
    using h by (simp add: halt_def py_index_0)
qed

subsection \<open>The control mode\<close>

text \<open>
  Claim C8. When the reply to \<open>C\<close> has at least six whitespace-delimited tokens,
  \<open>_determine_control_mode\<close> returns \<open>'pos'\<close> if the sixth token, lower-cased, is
  \<open>independent\<close>, and \<open>'vel'\<close> for any other sixth token.
\<close>

theorem control_mode_rule:
  assumes "send (PBytes ''C '') True st = (Inr response, st1)" and "ascii_text response"
    and "6 \<le> length (py_split response)"
  shows "determine_control_mode st =
           (Inr (if lower (py_split response ! 5) = ''independent'' then ''pos'' else ''vel''), st1)"
  using assms by (simp add: determine_control_mode_def py_index_def)


lemma frame_examples:
  "frame_of (SetPanPosition 10) = ''PP10 ''" "frame_of (SetTiltSpeed (- 250)) = ''TS-250 ''"
  by code_simp+

lemma send_session:
  assumes "upper s = s" and "s \<noteq> []" and "last s = CHR '' ''"
    and "s \<noteq> ''EE ''" and "s \<noteq> ''ED ''"
  shows "send (PBytes s) True (session e [] (reply # later)) =
     (let (line, rest) = read_until_from ptu_TERM [] reply
      in (Inr (drop (if e then length s else 0) (take (length line - 2) line)),
          (session e [] [])\<lparr>serial := \<lparr>rx = rest, pending = later, tx = [s]\<rparr>\<rparr>))"
proof -
  obtain line rest where l: "read_until_from ptu_TERM [] reply = (line, rest)"
    by (cases "read_until_from ptu_TERM [] reply")
  have g: "get_response (after_write (upper s) (session e [] (reply # later))) =
     (line, (session e [] [])\<lparr>serial := \<lparr>rx = rest, pending = later, tx = [s]\<rparr>\<rparr>)"
    using l assms(1)
    by (simp add: get_response_def after_write_def session_def port_write_def
        port_read_until_def decode_def)
  have r: "rx (serial (session e [] (reply # later))) = []" by (simp add: session_simps)
  show ?thesis
    using send_idle[of "PBytes s" s, OF _ assms(2,3) r g, of True] assms(1,4,5) l
    by (simp add: session_def)
qed

lemma send_session_silent:
  assumes "upper s = s" and "s \<noteq> []" and "last s = CHR '' ''"
    and "s \<noteq> ''EE ''" and "s \<noteq> ''ED ''"
    and "command = PStr s \<or> command = PBytes s"
  shows "send command True (session e [] []) =
     (Inr [], (session e [] [])\<lparr>serial := \<lparr>rx = [], pending = [], tx = [s]\<rparr>\<rparr>)"
proof -
  have g: "get_response (after_write (upper s) (session e [] [])) =
     ([], (session e [] [])\<lparr>serial := \<lparr>rx = [], pending = [], tx = [s]\<rparr>\<rparr>)"
    using assms(1) by (simp add: respond_silent)
  have r: "rx (serial (session e [] [])) = []" by (simp add: session_simps)
  show ?thesis
    using send_idle[OF assms(6,2,3) r g, of True] assms(1,4,5)
    by (simp add: session_def)
qed


theorem empty_payload_raises_index_error_witness:
  "call (SetPanPosition 10) False (session True [] []) =
     (Inl IndexError, (session True [] [])\<lparr>serial := \<lparr>rx = [], pending = [], tx = [''PP10 '']\<rparr>\<rparr>) \<and>
   halt (session True [] []) =
     (Inl IndexError, (session True [] [])\<lparr>serial := \<lparr>rx = [], pending = [], tx = [''H '']\<rparr>\<rparr>) \<and>
   fst (call (SetTiltSpeed (- 250)) True (session False [] [])) = Inl IndexError"
proof -
  have s1: "send (PBytes (frame_of (SetPanPosition 10))) True (session True [] []) =
      (Inr [], (session True [] [])\<lparr>serial := \<lparr>rx = [], pending = [], tx = [''PP10 '']\<rparr>\<rparr>)"
    unfolding frame_examples by (simp add: send_session_silent upper_examples)
  have s2: "send (PStr ''H '') True (session True [] []) =
      (Inr [], (session True [] [])\<lparr>serial := \<lparr>rx = [], pending = [], tx = [''H '']\<rparr>\<rparr>)"
    by (simp add: send_session_silent upper_examples)
  have q: "rx (serial (session False [] [])) = []" "pending (serial (session False [] [])) = []"
    by (simp_all add: session_simps)
  from empty_payload_raises_index_error[where m = "SetPanPosition 10" and st = "session True [] []"
      and blocking = False
      and ?st1.0 = "(session True [] [])\<lparr>serial := \<lparr>rx = [], pending = [], tx = [''PP10 '']\<rparr>\<rparr>"
      and ?st2.0 = "(session True [] [])\<lparr>serial := \<lparr>rx = [], pending = [], tx = [''PP10 '']\<rparr>\<rparr>"]
    s1
  have 1: "call (SetPanPosition 10) False (session True [] []) =
     (Inl IndexError, (session True [] [])\<lparr>serial := \<lparr>rx = [], pending = [], tx = [''PP10 '']\<rparr>\<rparr>)"
    by blast
  from empty_payload_raises_index_error[where st = "session True [] []"
      and ?st1.0 = "(session True [] [])\<lparr>serial := \<lparr>rx = [], pending = [], tx = [''H '']\<rparr>\<rparr>"]
    s2
  have 2: "halt (session True [] []) =
     (Inl IndexError, (session True [] [])\<lparr>serial := \<lparr>rx = [], pending = [], tx = [''H '']\<rparr>\<rparr>)"
    by blast
  from empty_payload_raises_index_error[where m = "SetTiltSpeed (- 250)" and st = "session False [] []"
      and blocking = True] q
  have 3: "fst (call (SetTiltSpeed (- 250)) True (session False [] [])) = Inl IndexError"
    by blast
  from 1 2 3 show ?thesis by blast
qed

lemma lower_examples:
  "lower ''Mode'' = ''mode''" "lower ''INDEPENDENT'' = ''independent''"
  by code_simp+

theorem control_mode_rule_witness:
  "determine_control_mode (session True [] [''C * PTU is in Independent Mode'' @ ptu_TERM]) =
     (Inr ''vel'', (session True [] [])\<lparr>serial := \<lparr>rx = [], pending = [], tx = [''C '']\<rparr>\<rparr>) \<and>
   determine_control_mode (session False [] [''* PTU is in mode INDEPENDENT'' @ ptu_TERM]) =
     (Inr ''pos'', (session False [] [])\<lparr>serial := \<lparr>rx = [], pending = [], tx = [''C '']\<rparr>\<rparr>)"
proof -
  have s1: "send (PBytes ''C '') True (session True [] [''C * PTU is in Independent Mode'' @ ptu_TERM]) =
      (Inr ''* PTU is in Independent Mode'',
       (session True [] [])\<lparr>serial := \<lparr>rx = [], pending = [], tx = [''C '']\<rparr>\<rparr>)"
    by (simp add: send_session upper_examples ptu_TERM_def)
  have s2: "send (PBytes ''C '') True (session False [] [''* PTU is in mode INDEPENDENT'' @ ptu_TERM]) =
      (Inr ''* PTU is in mode INDEPENDENT'',
       (session False [] [])\<lparr>serial := \<lparr>rx = [], pending = [], tx = [''C '']\<rparr>\<rparr>)"
    by (simp add: send_session upper_examples ptu_TERM_def)
  have a: "ascii_text ''* PTU is in Independent Mode''" "ascii_text ''* PTU is in mode INDEPENDENT''"
    by (simp_all add: ascii_text_def)
  have t: "py_split ''* PTU is in Independent Mode'' = [''*'', ''PTU'', ''is'', ''in'', ''Independent'', ''Mode'']"
    "py_split ''* PTU is in mode INDEPENDENT'' = [''*'', ''PTU'', ''is'', ''in'', ''mode'', ''INDEPENDENT'']"
    by (simp_all add: py_split_def isspace_def)
  from control_mode_rule[OF s1 a(1)] control_mode_rule[OF s2 a(2)]
  show ?thesis by (simp add: t lower_examples)
qed

subsection \<open>Angles to positions\<close>






















end
